theory Spec2Isabelle
  imports Complex_Main "HOL-Library.Sublist"
begin

section \<open>Values, errors and Python dictionaries\<close>

text \<open>
  A cell of a pandas column or of a numpy array: a float (an exact real here: the
  rounding and the infinities of float64 are not modelled), the missing value NaN,
  or a Python string (the \<open>Label\<close> column of an epoch holds strings).
\<close>

datatype cell = Num real | NaN | Str string

text \<open>
  The exceptions the two functions and the library calls they make can raise.
  A collaborator is free to return any of them; \<open>Raised\<close> stands for an exception
  of a collaborator's own.
\<close>

datatype error =
    ValueError string
  | KeyError string
  | IndexError
  | TypeError
  | UnboundLocalError string
  | Raised string

text \<open>
  Sequencing of statements that may raise: the first exception ends the function.
\<close>

definition and_then :: "error + 'a \<Rightarrow> ('a \<Rightarrow> error + 'b) \<Rightarrow> error + 'b" where
  "and_then m f = (case m of Inl e \<Rightarrow> Inl e | Inr x \<Rightarrow> f x)"

text \<open>
  A Python \<open>dict\<close> keeps its keys in insertion order: \<open>d[k] = v\<close> replaces the
  value where \<open>k\<close> already is, and appends the pair otherwise.
  \<open>d.update(e)\<close> stores the pairs of \<open>e\<close> one after the other, and \<open>d[k]\<close>
  raises \<open>KeyError\<close> for a key that is not there.
\<close>

fun dict_set :: "(string \<times> 'v) list \<Rightarrow> string \<Rightarrow> 'v \<Rightarrow> (string \<times> 'v) list" where
  "dict_set [] k v = [(k, v)]"
| "dict_set ((k', v') # d) k v =
     (if k' = k then (k, v) # d else (k', v') # dict_set d k v)"

definition dict_getitem :: "(string \<times> 'v) list \<Rightarrow> string \<Rightarrow> error + 'v" where
  "dict_getitem d k = (case map_of d k of None \<Rightarrow> Inl (KeyError k) | Some v \<Rightarrow> Inr v)"

definition dict_update :: "(string \<times> 'v) list \<Rightarrow> (string \<times> 'v) list \<Rightarrow> (string \<times> 'v) list" where
  "dict_update d e = foldl (\<lambda>acc kv. dict_set acc (fst kv) (snd kv)) d e"

section \<open>Data frames\<close>

text \<open>
  A pandas \<open>DataFrame\<close> on the default row index \<open>0 .. nrows - 1\<close>: the row count
  and the columns in order. Column names may repeat. In a frame that pandas can
  build every column has \<open>nrows\<close> cells (\<open>wf_frame\<close>).
\<close>

record frame =
  nrows :: nat
  cols :: "(string \<times> cell list) list"

definition wf_frame :: "frame \<Rightarrow> bool" where
  "wf_frame df = list_all (\<lambda>c. length (snd c) = nrows df) (cols df)"

text \<open>
  \<open>pd.DataFrame({name: array, ...})\<close>: the arrays must all have one length, which
  becomes the row count; otherwise pandas raises a \<open>ValueError\<close>.
\<close>

definition DataFrame :: "(string \<times> cell list) list \<Rightarrow> error + frame" where
  "DataFrame d =
     (case d of
        [] \<Rightarrow> Inr \<lparr>nrows = 0, cols = []\<rparr>
      | c # rest \<Rightarrow>
          if list_all (\<lambda>c'. length (snd c') = length (snd c)) rest
          then Inr \<lparr>nrows = length (snd c), cols = d\<rparr>
          else Inl (ValueError ''All arrays must be of the same length''))"

text \<open>
  \<open>pd.concat(frames, axis=1)\<close> with the default outer join: the row index of the
  result is the union of the row indexes, so the result has the largest row count;
  a shorter column is filled with NaN up to it. The columns follow one another
  in the order of the frames, and a name that occurs twice stays twice.
\<close>

definition reindex :: "nat \<Rightarrow> cell list \<Rightarrow> cell list" where
  "reindex n vs = vs @ replicate (n - length vs) NaN"

definition concat_axis1 :: "frame list \<Rightarrow> error + frame" where
  "concat_axis1 dfs =
     (if dfs = [] then Inl (ValueError ''No objects to concatenate'')
      else let n = foldr max (map nrows dfs) 0
           in Inr \<lparr>nrows = n,
                   cols = concat (map (\<lambda>df. map (\<lambda>c. (fst c, reindex n (snd c))) (cols df)) dfs)\<rparr>)"

section \<open>The ECG pipeline: \<open>ecg_process\<close>\<close>

text \<open>
  The metadata dictionaries (\<open>rpeaks\<close>, \<open>delineate_info\<close>, \<open>info\<close>): a key holds
  sample indices or a scalar.
\<close>

datatype info_value = Indices "nat list" | IntVal int

type_synonym info = "(string \<times> info_value) list"

text \<open>
  The functions \<open>ecg_process\<close> imports and calls. Their code is outside the two
  files; each is a parameter that returns a value or raises.
\<close>

record collaborators =
  signal_sanitize :: "cell list \<Rightarrow> error + cell list"
  ecg_clean :: "cell list \<Rightarrow> int \<Rightarrow> string \<Rightarrow> error + cell list"
  ecg_peaks :: "cell list \<Rightarrow> int \<Rightarrow> string \<Rightarrow> bool \<Rightarrow> error + (frame \<times> info)"
  signal_rate :: "info \<Rightarrow> int \<Rightarrow> nat \<Rightarrow> error + cell list"
  ecg_quality :: "cell list \<Rightarrow> info_value \<Rightarrow> int \<Rightarrow> error + cell list"
  ecg_delineate :: "cell list \<Rightarrow> info \<Rightarrow> int \<Rightarrow> error + (frame \<times> info)"
  ecg_phase :: "cell list \<Rightarrow> info \<Rightarrow> info \<Rightarrow> error + frame"

text \<open>
  \<open>ecg_process(ecg_signal, sampling_rate, method)\<close>, statement by statement.
  An exception of any call ends the function with that exception.
\<close>

definition ecg_process ::
  "collaborators \<Rightarrow> cell list \<Rightarrow> int \<Rightarrow> string \<Rightarrow> error + (frame \<times> info)" where
  "ecg_process C raw sampling_rate method =
     and_then (signal_sanitize C raw) (\<lambda>ecg_signal.
     and_then (ecg_clean C ecg_signal sampling_rate method) (\<lambda>ecg_cleaned.
     and_then (ecg_peaks C ecg_cleaned sampling_rate method True) (\<lambda>(instant_peaks, rpeaks).
     and_then (signal_rate C rpeaks sampling_rate (length ecg_cleaned)) (\<lambda>rate.
     and_then (dict_getitem rpeaks ''ECG_R_Peaks'') (\<lambda>r_peaks.
     and_then (ecg_quality C ecg_cleaned r_peaks sampling_rate) (\<lambda>quality.
     and_then (DataFrame [(''ECG_Raw'', ecg_signal), (''ECG_Clean'', ecg_cleaned),
                          (''ECG_Rate'', rate), (''ECG_Quality'', quality)]) (\<lambda>signals.
     and_then (ecg_delineate C ecg_cleaned rpeaks sampling_rate) (\<lambda>(delineate_signal, delineate_info).
     and_then (ecg_phase C ecg_cleaned rpeaks delineate_info) (\<lambda>cardiac_phase.
     and_then (concat_axis1 [signals, instant_peaks, delineate_signal, cardiac_phase]) (\<lambda>merged.
     Inr (merged, dict_set rpeaks ''sampling_rate'' (IntVal sampling_rate))))))))))))"

text \<open>
  The call with its default arguments: \<open>sampling_rate=1000\<close>, \<open>method="neurokit"\<close>.
\<close>

definition ecg_process_call ::
  "collaborators \<Rightarrow> cell list \<Rightarrow> int option \<Rightarrow> string option \<Rightarrow> error + (frame \<times> info)" where
  "ecg_process_call C raw sampling_rate method =
     ecg_process C raw (case sampling_rate of None \<Rightarrow> 1000 | Some sr \<Rightarrow> sr)
       (case method of None \<Rightarrow> ''neurokit'' | Some m \<Rightarrow> m)"

text \<open>
  The length contracts of the collaborators (section 6 of the specification): the
  cleaner and the quality scorer return as many samples as they get, the rate
  estimator as many as asked for, and the three tables have one row per sample of
  the cleaned signal.
\<close>

definition length_contract :: "collaborators \<Rightarrow> bool" where
  "length_contract C \<longleftrightarrow>
     (\<forall>s sr m c. ecg_clean C s sr m = Inr c \<longrightarrow> length c = length s) \<and>
     (\<forall>c sr m b ip rp. ecg_peaks C c sr m b = Inr (ip, rp) \<longrightarrow> wf_frame ip \<and> nrows ip = length c) \<and>
     (\<forall>rp sr n r. signal_rate C rp sr n = Inr r \<longrightarrow> length r = n) \<and>
     (\<forall>c pk sr q. ecg_quality C c pk sr = Inr q \<longrightarrow> length q = length c) \<and>
     (\<forall>c rp sr ds di. ecg_delineate C c rp sr = Inr (ds, di) \<longrightarrow> wf_frame ds \<and> nrows ds = length c) \<and>
     (\<forall>c rp di cp. ecg_phase C c rp di = Inr cp \<longrightarrow> wf_frame cp \<and> nrows cp = length c)"

text \<open>A sample set of collaborators that honour the contract, for concrete runs.\<close>

definition zeros :: "cell list \<Rightarrow> cell list" where
  "zeros c = map (\<lambda>_. Num 0) c"

definition demo :: collaborators where
  "demo = \<lparr>
     signal_sanitize = (\<lambda>raw. Inr raw),
     ecg_clean = (\<lambda>s sr m. Inr s),
     ecg_peaks = (\<lambda>c sr m b.
        Inr (\<lparr>nrows = length c, cols = [(''ECG_R_Peaks'', zeros c)]\<rparr>,
             [(''ECG_R_Peaks'', Indices []), (''sampling_rate'', IntVal sr)])),
     signal_rate = (\<lambda>rp sr n. Inr (replicate n (Num 60))),
     ecg_quality = (\<lambda>c pk sr. Inr (zeros c)),
     ecg_delineate = (\<lambda>c rp sr.
        Inr (\<lparr>nrows = length c, cols = [(''ECG_P_Peaks'', zeros c)]\<rparr>, [(''ECG_P_Peaks'', Indices [])])),
     ecg_phase = (\<lambda>c rp di. Inr \<lparr>nrows = length c, cols = [(''ECG_Phase_Atrial'', zeros c)]\<rparr>)\<rparr>"

text \<open>
  The columns of a column-wise merge with \<open>n\<close> rows: every column of every table, in
  order, filled with NaN up to \<open>n\<close> cells.
\<close>

definition merged_cols :: "nat \<Rightarrow> (string \<times> cell list) list \<Rightarrow> (string \<times> cell list) list" where
  "merged_cols n cs = map (\<lambda>c. (fst c, reindex n (snd c))) cs"

text \<open>
  Variants of the sample collaborators: a delineator and a quality scorer that
  return one row too few, and a phase assigner that emits a column under a name
  the delineator already uses.
\<close>

definition ones :: "cell list \<Rightarrow> cell list" where
  "ones c = map (\<lambda>_. Num 1) c"

definition short_delineate :: collaborators where
  "short_delineate = demo\<lparr>ecg_delineate := (\<lambda>c rp sr.
      Inr (\<lparr>nrows = length c - 1, cols = [(''ECG_P_Peaks'', zeros (butlast c))]\<rparr>,
           [(''ECG_P_Peaks'', Indices [])]))\<rparr>"

definition short_quality :: collaborators where
  "short_quality = demo\<lparr>ecg_quality := (\<lambda>c pk sr. Inr (zeros (butlast c)))\<rparr>"

definition clash :: collaborators where
  "clash = demo\<lparr>ecg_phase := (\<lambda>c rp di.
      Inr \<lparr>nrows = length c, cols = [(''ECG_P_Peaks'', ones c)]\<rparr>)\<rparr>"

section \<open>The PPG interval aggregator: \<open>ppg_intervalrelated\<close>\<close>

text \<open>Python's \<open>pat in s\<close> on strings: \<open>pat\<close> occurs in \<open>s\<close> as a contiguous run.\<close>

fun str_in :: "string \<Rightarrow> string \<Rightarrow> bool" where
  "str_in pat [] = (pat = [])"
| "str_in pat (c # cs) = (prefix pat (c # cs) \<or> str_in pat cs)"

text \<open>
  \<open>df[name]\<close>: a \<open>KeyError\<close> when no column has that name, the column (a Series) when
  one has, and the sub-table of all of them when the name repeats. \<open>.values\<close> of a
  Series is a one-dimensional array; of a sub-table it is two-dimensional, one row
  per table row.
\<close>

datatype selection = Series "cell list" | SubFrame "cell list list"

definition getitem :: "frame \<Rightarrow> string \<Rightarrow> error + selection" where
  "getitem df name =
     (case filter (\<lambda>c. fst c = name) (cols df) of
        [] \<Rightarrow> Inl (KeyError name)
      | [c] \<Rightarrow> Inr (Series (snd c))
      | cs \<Rightarrow> Inr (SubFrame (map snd cs)))"

fun elements :: "selection \<Rightarrow> cell list" where
  "elements (Series vs) = vs"
| "elements (SubFrame cs) = concat (transpose cs)"

text \<open>
  \<open>np.mean\<close>: the sum of all elements divided by their number. NaN propagates, the
  mean of no element is NaN (0/0), and a string among the elements is a \<open>TypeError\<close>.
  On exact reals the order of the additions does not matter.
\<close>

fun add_cell :: "cell \<Rightarrow> cell \<Rightarrow> error + cell" where
  "add_cell (Num x) (Num y) = Inr (Num (x + y))"
| "add_cell (Str a) y = Inl TypeError"
| "add_cell x (Str b) = Inl TypeError"
| "add_cell x y = Inr NaN"

fun np_sum :: "cell list \<Rightarrow> error + cell" where
  "np_sum [] = Inr (Num 0)"
| "np_sum (x # xs) = and_then (np_sum xs) (add_cell x)"

fun divide_cell :: "cell \<Rightarrow> nat \<Rightarrow> error + cell" where
  "divide_cell (Num s) n = Inr (if n = 0 then NaN else Num (s / real n))"
| "divide_cell NaN n = Inr NaN"
| "divide_cell (Str a) n = Inl TypeError"

definition np_mean :: "cell list \<Rightarrow> error + cell" where
  "np_mean xs = and_then (np_sum xs) (\<lambda>s. divide_cell s (length xs))"

text \<open>
  \<open>np.where(a)[0]\<close>: the positions of the elements that are true (not zero; NaN and a
  non-empty string are true). For a two-dimensional array these are the row numbers
  of the true elements in row-major order, so a row is listed once for each of them.
\<close>

fun truthy :: "cell \<Rightarrow> bool" where
  "truthy (Num x) = (x \<noteq> 0)"
| "truthy NaN = True"
| "truthy (Str a) = (a \<noteq> [])"

fun np_where_0 :: "selection \<Rightarrow> nat list" where
  "np_where_0 (Series vs) = filter (\<lambda>i. truthy (vs ! i)) [0..<length vs]"
| "np_where_0 (SubFrame cs) =
     concat (map (\<lambda>(i, row). replicate (length (filter truthy row)) i) (enumerate 0 (transpose cs)))"

text \<open>
  \<open>.iloc[0]\<close>: the first element of a Series, the first row of a sub-table;
  \<open>IndexError\<close> when there is no row.
\<close>

datatype feature = Scalar cell | Array "cell list" | Array2 "cell list list"

fun iloc_0 :: "selection \<Rightarrow> error + feature" where
  "iloc_0 (Series []) = Inl IndexError"
| "iloc_0 (Series (x # xs)) = Inr (Scalar x)"
| "iloc_0 (SubFrame cs) = (case transpose cs of [] \<Rightarrow> Inl IndexError | row # rows \<Rightarrow> Inr (Array row))"

text \<open>
  \<open>.values.astype("float")\<close>: floats and NaN stay as they are. A string cannot be
  cast (one that spells a number would be parsed; \<open>hrv\<close> returns float columns,
  for which the cast changes nothing).
\<close>

definition cast_msg :: string where
  "cast_msg = ''could not convert string to float''"

definition astype_float :: "selection \<Rightarrow> error + feature" where
  "astype_float sel =
     (if list_ex (\<lambda>x. case x of Str a \<Rightarrow> True | _ \<Rightarrow> False) (elements sel)
      then Inl (ValueError cast_msg)
      else Inr (case sel of Series vs \<Rightarrow> Array vs | SubFrame cs \<Rightarrow> Array2 (transpose cs)))"

text \<open>
  A summary row is a dictionary from feature names to values. The variability
  engine \<open>hrv\<close> is imported from another module: a parameter that takes the
  dictionary of peak positions and the sampling rate and returns a table.
\<close>

type_synonym row = "(string \<times> feature) list"

type_synonym hrv_engine = "(string \<times> nat list) list \<Rightarrow> int \<Rightarrow> error + frame"

definition rate_msg :: string where
  "rate_msg = ''NeuroKit error: ppg_intervalrelated(): Wrong input,we couldn't extract heart rate. Please make sureyour DataFrame contains a `PPG_Rate` column.''"

definition peaks_msg :: string where
  "peaks_msg = ''NeuroKit error: ppg_intervalrelated(): Wrong input,we couldn't extract peaks. Please make sureyour DataFrame contains a `PPG_Peaks` column.''"

text \<open>
  \<open>_ppg_intervalrelated_formatinput(data, output)\<close>. No statement before the last
  assignment changes \<open>output\<close>, so an exception leaves the dictionary as it was.
\<close>

definition ppg_intervalrelated_formatinput :: "frame \<Rightarrow> row \<Rightarrow> error + row" where
  "ppg_intervalrelated_formatinput data output =
     (if length (filter (str_in ''PPG_Rate'') (map fst (cols data))) = 0
      then Inl (ValueError rate_msg)
      else and_then (getitem data ''PPG_Rate'') (\<lambda>signal.
           and_then (np_mean (elements signal)) (\<lambda>mean.
           Inr (dict_set output ''PPG_Rate_Mean'' (Scalar mean)))))"

text \<open>
  The loop \<open>for column in results.columns: output[column] = ...\<close>. It writes into
  \<open>output\<close> as it goes: the result is the exception, if any, and the dictionary as
  the loop left it.
\<close>

fun store_columns :: "frame \<Rightarrow> string list \<Rightarrow> row \<Rightarrow> error option \<times> row" where
  "store_columns results [] output = (None, output)"
| "store_columns results (column # rest) output =
     (case and_then (getitem results column) astype_float of
        Inl e \<Rightarrow> (Some e, output)
      | Inr v \<Rightarrow> store_columns results rest (dict_set output column v))"

text \<open>
  The conversion of the mask column to peak positions, as \<open>_ppg_intervalrelated_hrv\<close>
  does it before it calls \<open>hrv\<close>.
\<close>

definition peaks_of :: "frame \<Rightarrow> error + nat list" where
  "peaks_of data = and_then (getitem data ''PPG_Peaks'') (\<lambda>mask. Inr (np_where_0 mask))"

text \<open>\<open>_ppg_intervalrelated_hrv(data, sampling_rate, output)\<close>.\<close>

definition ppg_intervalrelated_hrv ::
  "hrv_engine \<Rightarrow> frame \<Rightarrow> int \<Rightarrow> row \<Rightarrow> error option \<times> row" where
  "ppg_intervalrelated_hrv hrv data sampling_rate output =
     (if length (filter (str_in ''PPG_Peaks'') (map fst (cols data))) = 0
      then (Some (ValueError peaks_msg), output)
      else case and_then (peaks_of data) (\<lambda>peaks. hrv [(''PPG_Peaks'', peaks)] sampling_rate) of
             Inl e \<Rightarrow> (Some e, output)
           | Inr results \<Rightarrow> store_columns results (map fst (cols results)) output)"

text \<open>
  The default arguments \<open>output={}\<close> of the two helpers are two dictionaries made
  once, when the module is loaded, and used by every call that passes no \<open>output\<close>:
  they are the state that outlives a call.
\<close>

record defaults =
  formatinput_output :: row
  hrv_output :: row

definition initial :: defaults where
  "initial = \<lparr>formatinput_output = [], hrv_output = []\<rparr>"

text \<open>
  The argument \<open>data\<close> is a DataFrame, a dict of DataFrames, or something else.
  The result is the dictionary \<open>intervals\<close> the final table is made of: one row in
  the first case (\<open>from_dict(...).T\<close>), one row per label in the second.
\<close>

datatype ppg_input = Table frame | Epochs "(string \<times> frame) list" | Other

datatype summary = SummaryRow row | SummaryTable "(string \<times> row) list"

text \<open>The body of the loop \<open>for index in data\<close>, for one label.\<close>

definition epoch_row :: "hrv_engine \<Rightarrow> int \<Rightarrow> frame \<Rightarrow> error + row" where
  "epoch_row hrv sampling_rate df =
     and_then (and_then (getitem df ''Label'') iloc_0) (\<lambda>label.
     and_then (ppg_intervalrelated_formatinput df (dict_set [] ''Label'' label)) (\<lambda>output.
     case ppg_intervalrelated_hrv hrv df sampling_rate output of
       (Some e, output') \<Rightarrow> Inl e
     | (None, output') \<Rightarrow> Inr output'))"

fun epochs_loop ::
  "hrv_engine \<Rightarrow> int \<Rightarrow> (string \<times> frame) list \<Rightarrow> (string \<times> row) list \<Rightarrow> error + (string \<times> row) list" where
  "epochs_loop hrv sampling_rate [] intervals = Inr intervals"
| "epochs_loop hrv sampling_rate ((index, df) # rest) intervals =
     and_then (epoch_row hrv sampling_rate df) (\<lambda>output.
     epochs_loop hrv sampling_rate rest (dict_set (dict_set intervals index []) index output))"

text \<open>
  \<open>ppg_intervalrelated(data, sampling_rate)\<close>: the result or the exception, and
  the two default dictionaries as the call leaves them. The sampling rate is only
  handed to \<open>hrv\<close>. In single-table mode the helpers are called without \<open>output\<close>,
  so they write into their default dictionaries, which \<open>intervals.update\<close> then
  copies; in collection mode each label gets a new dictionary.
\<close>

definition ppg_intervalrelated ::
  "hrv_engine \<Rightarrow> ppg_input \<Rightarrow> int \<Rightarrow> defaults \<Rightarrow> (error + summary) \<times> defaults" where
  "ppg_intervalrelated hrv data sampling_rate st =
     (case data of
        Table df \<Rightarrow>
          if length (filter (str_in ''PPG_Rate'') (map fst (cols df))) = 1
          then (case ppg_intervalrelated_formatinput df (formatinput_output st) of
                  Inl e \<Rightarrow> (Inl e, st)
                | Inr out1 \<Rightarrow>
                    (case ppg_intervalrelated_hrv hrv df sampling_rate (hrv_output st) of
                       (Some e, out2) \<Rightarrow>
                         (Inl e, \<lparr>formatinput_output = out1, hrv_output = out2\<rparr>)
                     | (None, out2) \<Rightarrow>
                         (Inr (SummaryRow (dict_update (dict_update [] out1) out2)),
                          \<lparr>formatinput_output = out1, hrv_output = out2\<rparr>)))
          else (Inl (ValueError rate_msg), st)
      | Epochs d \<Rightarrow>
          (case epochs_loop hrv sampling_rate d [] of
             Inl e \<Rightarrow> (Inl e, st)
           | Inr intervals \<Rightarrow> (Inr (SummaryTable intervals), st))
      | Other \<Rightarrow> (Inl (UnboundLocalError ''ppg_intervals''), st))"

text \<open>
  A sample variability engine and sample tables for concrete runs. The engine
  reports the number of peaks, and a second metric only when there are at least two
  peaks (as \<open>hrv\<close> leaves out the indices a recording is too short for).
\<close>

definition hrv_demo :: hrv_engine where
  "hrv_demo peaks sampling_rate =
     (case map_of peaks ''PPG_Peaks'' of
        None \<Rightarrow> Inl (KeyError ''PPG_Peaks'')
      | Some p \<Rightarrow>
          Inr \<lparr>nrows = 1,
               cols = (''HRV_N'', [Num (real (length p))]) #
                      (if 2 \<le> length p then [(''HRV_SDNN'', [Num 0])] else [])\<rparr>)"

definition no_rate :: frame where
  "no_rate = \<lparr>nrows = 3, cols = [(''PPG_Clean'', [Num 1, Num 2, Num 3]), (''PPG_Peaks'', [Num 0, Num 1, Num 0])]\<rparr>"

definition two_rates :: frame where
  "two_rates = \<lparr>nrows = 3, cols = [(''PPG_Rate'', [Num 60, Num 60, Num 60]),
      (''PPG_Rate_Smoothed'', [Num 61, Num 61, Num 61]), (''PPG_Peaks'', [Num 0, Num 1, Num 0])]\<rparr>"

definition smoothed_rate :: frame where
  "smoothed_rate = \<lparr>nrows = 3, cols = [(''PPG_Rate_Smoothed'', [Num 60, Num 60, Num 60]),
      (''PPG_Peaks'', [Num 0, Num 1, Num 0])]\<rparr>"

definition corrected_peaks :: frame where
  "corrected_peaks = \<lparr>nrows = 3, cols = [(''PPG_Rate'', [Num 60, Num 60, Num 60]),
      (''PPG_Peaks_Corrected'', [Num 0, Num 1, Num 0])]\<rparr>"

definition rates_68 :: frame where
  "rates_68 = \<lparr>nrows = 5, cols = [(''PPG_Rate'', [Num 60, Num 60, Num 60, Num 80, Num 80]),
      (''PPG_Peaks'', [Num 0, Num 1, Num 0, Num 0, Num 1])]\<rparr>"

definition epoch_ok :: frame where
  "epoch_ok = \<lparr>nrows = 3, cols = [(''Label'', [Str ''1'', Str ''1'', Str ''1'']),
      (''PPG_Rate'', [Num 60, Num 60, Num 60]), (''PPG_Peaks'', [Num 0, Num 1, Num 0])]\<rparr>"

definition epoch_no_peaks :: frame where
  "epoch_no_peaks = \<lparr>nrows = 3, cols = [(''Label'', [Str ''2'', Str ''2'', Str ''2'']),
      (''PPG_Rate'', [Num 70, Num 70, Num 70])]\<rparr>"

definition one_peak :: frame where
  "one_peak = \<lparr>nrows = 3, cols = [(''PPG_Rate'', [Num 60, Num 60, Num 60]),
      (''PPG_Peaks'', [Num 0, Num 1, Num 0])]\<rparr>"

section \<open>Facts about sequencing and frames\<close>

lemma and_then_simps [simp]:
  "and_then (Inl e) f = Inl e"
  "and_then (Inr x) f = f x"
  by (simp_all add: and_then_def)

lemma and_then_eq_Inr: "and_then m f = Inr y \<longleftrightarrow> (\<exists>x. m = Inr x \<and> f x = Inr y)"
  by (cases m) simp_all

lemma DataFrame_Inr:
  "DataFrame d = Inr df \<Longrightarrow> cols df = d \<and> (\<forall>c \<in> set d. length (snd c) = nrows df)"
  by (cases d) (auto simp: DataFrame_def list_all_iff split: if_splits)

lemma foldr_max_ge: "x \<in> set xs \<Longrightarrow> x \<le> foldr max xs (0::nat)"
  by (induction xs) (auto simp: max_def)

lemma length_reindex: "length vs \<le> n \<Longrightarrow> length (reindex n vs) = n"
  by (simp add: reindex_def)

lemma concat_axis1_wf:
  assumes "concat_axis1 dfs = Inr df" and "\<forall>d \<in> set dfs. wf_frame d"
  shows "wf_frame df \<and> nrows df = foldr max (map nrows dfs) 0"
proof -
  let ?n = "foldr max (map nrows dfs) 0"
  from assms(1) have df: "df = \<lparr>nrows = ?n,
      cols = concat (map (\<lambda>d. map (\<lambda>c. (fst c, reindex ?n (snd c))) (cols d)) dfs)\<rparr>"
    by (auto simp: concat_axis1_def Let_def split: if_splits)
  have "length (reindex ?n (snd c)) = ?n" if "d \<in> set dfs" "c \<in> set (cols d)" for d c
  proof -
    from that assms(2) have "length (snd c) = nrows d"
      by (auto simp: wf_frame_def list_all_iff)
    moreover from that(1) have "nrows d \<le> ?n"
      by (intro foldr_max_ge) simp
    ultimately show ?thesis by (simp add: length_reindex)
  qed
  then show ?thesis
    by (auto simp: df wf_frame_def list_all_iff)
qed

lemma DataFrame_primary:
  "DataFrame [(a, s), (b, c), (d, r), (e, q)] =
     (if length c = length s \<and> length r = length s \<and> length q = length s
      then Inr \<lparr>nrows = length s, cols = [(a, s), (b, c), (d, r), (e, q)]\<rparr>
      else Inl (ValueError ''All arrays must be of the same length''))"
  by (simp add: DataFrame_def)

lemma concat_axis1_four:
  "concat_axis1 [a, b, c, d] =
     Inr \<lparr>nrows = max (nrows a) (max (nrows b) (max (nrows c) (nrows d))),
          cols = merged_cols (max (nrows a) (max (nrows b) (max (nrows c) (nrows d))))
                   (cols a @ cols b @ cols c @ cols d)\<rparr>"
  by (simp add: concat_axis1_def merged_cols_def Let_def)

lemma ecg_process_returns:
  assumes "signal_sanitize C raw = Inr s"
    and "ecg_clean C s sr m = Inr c"
    and "ecg_peaks C c sr m True = Inr (ip, rp)"
    and "signal_rate C rp sr (length c) = Inr r"
    and "dict_getitem rp ''ECG_R_Peaks'' = Inr pk"
    and "ecg_quality C c pk sr = Inr q"
    and "length c = length s" "length r = length s" "length q = length s"
    and "ecg_delineate C c rp sr = Inr (ds, di)"
    and "ecg_phase C c rp di = Inr cp"
  shows "ecg_process C raw sr m =
     Inr (\<lparr>nrows = max (length s) (max (nrows ip) (max (nrows ds) (nrows cp))),
           cols = merged_cols (max (length s) (max (nrows ip) (max (nrows ds) (nrows cp))))
                    ([(''ECG_Raw'', s), (''ECG_Clean'', c), (''ECG_Rate'', r), (''ECG_Quality'', q)]
                      @ cols ip @ cols ds @ cols cp)\<rparr>,
          dict_set rp ''sampling_rate'' (IntVal sr))"
  using assms by (simp add: ecg_process_def DataFrame_primary concat_axis1_four)

lemma ecg_process_primary_mismatch:
  assumes "signal_sanitize C raw = Inr s"
    and "ecg_clean C s sr m = Inr c"
    and "ecg_peaks C c sr m True = Inr (ip, rp)"
    and "signal_rate C rp sr (length c) = Inr r"
    and "dict_getitem rp ''ECG_R_Peaks'' = Inr pk"
    and "ecg_quality C c pk sr = Inr q"
    and "length c \<noteq> length s \<or> length r \<noteq> length s \<or> length q \<noteq> length s"
  shows "ecg_process C raw sr m = Inl (ValueError ''All arrays must be of the same length'')"
  using assms by (auto simp add: ecg_process_def DataFrame_primary)

lemma merged_cols_length:
  "(\<And>c. c \<in> set cs \<Longrightarrow> length (snd c) \<le> n) \<Longrightarrow> c \<in> set (merged_cols n cs) \<Longrightarrow> length (snd c) = n"
  by (auto simp: merged_cols_def length_reindex)

lemma merged_cols_mem:
  "c \<in> set cs \<Longrightarrow> (fst c, snd c @ replicate (n - length (snd c)) NaN) \<in> set (merged_cols n cs)"
  by (force simp: merged_cols_def reindex_def)

section \<open>Length invariance of the pipeline\<close>

text \<open>
  Claim C1. When the collaborators honour their length contracts and \<open>ecg_process\<close>
  returns a table for an input whose sanitized signal has \<open>N\<close> samples, the table has
  \<open>N\<close> rows and every one of its columns has exactly \<open>N\<close> cells: the final
  column-wise merge leaves the row count of the primary table as it is.
\<close>

theorem ecg_process_length_invariance:
  assumes "length_contract C"
    and "signal_sanitize C raw = Inr s"
    and "ecg_process C raw sr m = Inr (signals, info)"
  shows "nrows signals = length s \<and> (\<forall>c \<in> set (cols signals). length (snd c) = length s)"
proof -
  from assms(2,3) obtain c ip rp r q primary ds di cp where
    clean: "ecg_clean C s sr m = Inr c" and
    peaks: "ecg_peaks C c sr m True = Inr (ip, rp)" and
    prim: "DataFrame [(''ECG_Raw'', s), (''ECG_Clean'', c), (''ECG_Rate'', r), (''ECG_Quality'', q)]
             = Inr primary" and
    delin: "ecg_delineate C c rp sr = Inr (ds, di)" and
    phase: "ecg_phase C c rp di = Inr cp" and
    merged: "concat_axis1 [primary, ip, ds, cp] = Inr signals"
    by (auto simp: ecg_process_def and_then_eq_Inr)
  from assms(1) clean have lc: "length c = length s"
    by (simp add: length_contract_def)
  from DataFrame_Inr [OF prim] have wp: "wf_frame primary" and np: "nrows primary = length s"
    by (auto simp: wf_frame_def list_all_iff)
  from assms(1) peaks lc have wi: "wf_frame ip" and ni: "nrows ip = length s"
    unfolding length_contract_def by metis+
  from assms(1) delin lc have wd: "wf_frame ds" and nd: "nrows ds = length s"
    unfolding length_contract_def by metis+
  from assms(1) phase lc have wc: "wf_frame cp" and nc: "nrows cp = length s"
    unfolding length_contract_def by metis+
  from concat_axis1_wf [OF merged] wp wi wd wc
  have "wf_frame signals" and "nrows signals = foldr max (map nrows [primary, ip, ds, cp]) 0"
    by simp_all
  with np ni nd nc show ?thesis
    by (auto simp: wf_frame_def list_all_iff)
qed

lemma demo_run:
  "ecg_process demo [Num 1, Num 2, Num 3] sr ''neurokit'' =
     Inr (\<lparr>nrows = 3,
           cols = [(''ECG_Raw'', [Num 1, Num 2, Num 3]), (''ECG_Clean'', [Num 1, Num 2, Num 3]),
                   (''ECG_Rate'', [Num 60, Num 60, Num 60]), (''ECG_Quality'', [Num 0, Num 0, Num 0]),
                   (''ECG_R_Peaks'', [Num 0, Num 0, Num 0]), (''ECG_P_Peaks'', [Num 0, Num 0, Num 0]),
                   (''ECG_Phase_Atrial'', [Num 0, Num 0, Num 0])]\<rparr>,
          [(''ECG_R_Peaks'', Indices []), (''sampling_rate'', IntVal sr)])"
  by (simp add: ecg_process_def demo_def zeros_def dict_getitem_def DataFrame_def
      concat_axis1_def reindex_def numeral_3_eq_3)

theorem ecg_process_length_invariance_witness:
  "length_contract demo \<and>
   signal_sanitize demo [Num 1, Num 2, Num 3] = Inr [Num 1, Num 2, Num 3] \<and>
   (\<exists>signals info. ecg_process demo [Num 1, Num 2, Num 3] 1000 ''neurokit'' = Inr (signals, info) \<and>
      nrows signals = 3 \<and> (\<forall>c \<in> set (cols signals). length (snd c) = 3))"
proof -
  have c: "length_contract demo"
    by (auto simp: length_contract_def demo_def wf_frame_def zeros_def)
  have s: "signal_sanitize demo [Num 1, Num 2, Num 3] = Inr [Num 1, Num 2, Num 3]"
    by (simp add: demo_def)
  obtain signals info where
    r: "ecg_process demo [Num 1, Num 2, Num 3] 1000 ''neurokit'' = Inr (signals, info)"
    using demo_run by blast
  from ecg_process_length_invariance [OF c s r] c s r show ?thesis by simp
qed

section \<open>Collaborators that break the length contract\<close>

text \<open>
  Claim C2, as stated, fails. A delineator that returns \<open>N - 1 = 2\<close> rows for a signal of
  \<open>N = 3\<close> samples raises nothing: \<open>ecg_process\<close> returns a table in which the short
  column is filled with NaN.
\<close>

theorem ecg_process_silent_merge:
  "ecg_process short_delineate [Num 1, Num 2, Num 3] 1000 ''neurokit'' =
     Inr (\<lparr>nrows = 3,
           cols = [(''ECG_Raw'', [Num 1, Num 2, Num 3]), (''ECG_Clean'', [Num 1, Num 2, Num 3]),
                   (''ECG_Rate'', [Num 60, Num 60, Num 60]), (''ECG_Quality'', [Num 0, Num 0, Num 0]),
                   (''ECG_R_Peaks'', [Num 0, Num 0, Num 0]), (''ECG_P_Peaks'', [Num 0, Num 0, NaN]),
                   (''ECG_Phase_Atrial'', [Num 0, Num 0, Num 0])]\<rparr>,
          [(''ECG_R_Peaks'', Indices []), (''sampling_rate'', IntVal 1000)])"
  by (simp add: ecg_process_def short_delineate_def demo_def zeros_def dict_getitem_def DataFrame_def
      concat_axis1_def reindex_def numeral_3_eq_3)

text \<open>
  Claim C2, amended. \<open>ecg_process\<close> has no alignment check of its own. When the
  cleaned signal, the rate or the quality column has another length than the
  sanitized signal, the construction of the primary table fails with the generic
  \<open>ValueError\<close> of pandas, which names neither a stage nor a length. When the peaks,
  delineation or phase table has another row count, no error is raised: the merged
  table has the largest row count, all its columns have that length, and each
  column of those tables is in it, filled with NaN.
\<close>

theorem ecg_process_length_mismatch:
  assumes "signal_sanitize C raw = Inr s"
    and "ecg_clean C s sr m = Inr c"
    and "ecg_peaks C c sr m True = Inr (ip, rp)"
    and "signal_rate C rp sr (length c) = Inr r"
    and "dict_getitem rp ''ECG_R_Peaks'' = Inr pk"
    and "ecg_quality C c pk sr = Inr q"
  shows "(length c \<noteq> length s \<or> length r \<noteq> length s \<or> length q \<noteq> length s \<longrightarrow>
           ecg_process C raw sr m = Inl (ValueError ''All arrays must be of the same length''))
       \<and> (length c = length s \<and> length r = length s \<and> length q = length s \<and>
          ecg_delineate C c rp sr = Inr (ds, di) \<and> ecg_phase C c rp di = Inr cp \<and>
          wf_frame ip \<and> wf_frame ds \<and> wf_frame cp \<longrightarrow>
           (\<exists>signals info. ecg_process C raw sr m = Inr (signals, info) \<and>
              nrows signals = max (length s) (max (nrows ip) (max (nrows ds) (nrows cp))) \<and>
              (\<forall>col \<in> set (cols signals). length (snd col) = nrows signals) \<and>
              (\<forall>col \<in> set (cols ip @ cols ds @ cols cp).
                 (fst col, snd col @ replicate (nrows signals - length (snd col)) NaN) \<in> set (cols signals))))"
proof (intro conjI impI)
  assume "length c \<noteq> length s \<or> length r \<noteq> length s \<or> length q \<noteq> length s"
  with assms show "ecg_process C raw sr m = Inl (ValueError ''All arrays must be of the same length'')"
    by (rule ecg_process_primary_mismatch)
next
  let ?n = "max (length s) (max (nrows ip) (max (nrows ds) (nrows cp)))"
  assume a: "length c = length s \<and> length r = length s \<and> length q = length s \<and>
          ecg_delineate C c rp sr = Inr (ds, di) \<and> ecg_phase C c rp di = Inr cp \<and>
          wf_frame ip \<and> wf_frame ds \<and> wf_frame cp"
  then have l: "length c = length s" "length r = length s" "length q = length s"
    and d: "ecg_delineate C c rp sr = Inr (ds, di)" and p: "ecg_phase C c rp di = Inr cp"
    by simp_all
  have run: "ecg_process C raw sr m =
     Inr (\<lparr>nrows = ?n,
           cols = merged_cols ?n
                    ([(''ECG_Raw'', s), (''ECG_Clean'', c), (''ECG_Rate'', r), (''ECG_Quality'', q)]
                      @ cols ip @ cols ds @ cols cp)\<rparr>,
          dict_set rp ''sampling_rate'' (IntVal sr))"
    by (rule ecg_process_returns [OF assms l d p])
  let ?all = "[(''ECG_Raw'', s), (''ECG_Clean'', c), (''ECG_Rate'', r), (''ECG_Quality'', q)]
                      @ cols ip @ cols ds @ cols cp"
  let ?signals = "\<lparr>nrows = ?n, cols = merged_cols ?n ?all\<rparr>"
  have len: "length (snd col) \<le> ?n" if "col \<in> set ?all" for col
    using that a l by (auto simp: wf_frame_def list_all_iff)
  have 1: "\<forall>col \<in> set (cols ?signals). length (snd col) = nrows ?signals"
    unfolding frame.simps using len by (intro merged_cols_length ballI)
  have 2: "\<forall>col \<in> set (cols ip @ cols ds @ cols cp).
      (fst col, snd col @ replicate (nrows ?signals - length (snd col)) NaN) \<in> set (cols ?signals)"
    unfolding frame.simps by (intro ballI merged_cols_mem) simp
  show "\<exists>signals info. ecg_process C raw sr m = Inr (signals, info) \<and>
              nrows signals = ?n \<and>
              (\<forall>col \<in> set (cols signals). length (snd col) = nrows signals) \<and>
              (\<forall>col \<in> set (cols ip @ cols ds @ cols cp).
                 (fst col, snd col @ replicate (nrows signals - length (snd col)) NaN) \<in> set (cols signals))"
  proof (intro exI conjI)
    show "ecg_process C raw sr m = Inr (?signals, dict_set rp ''sampling_rate'' (IntVal sr))"
      by (rule run)
    show "nrows ?signals = ?n" by simp
    show "\<forall>col \<in> set (cols ?signals). length (snd col) = nrows ?signals" by (rule 1)
    show "\<forall>col \<in> set (cols ip @ cols ds @ cols cp).
      (fst col, snd col @ replicate (nrows ?signals - length (snd col)) NaN) \<in> set (cols ?signals)"
      by (rule 2)
  qed
qed

theorem ecg_process_length_mismatch_witness:
  "ecg_process short_quality [Num 1, Num 2, Num 3] 1000 ''neurokit'' =
     Inl (ValueError ''All arrays must be of the same length'') \<and>
   (\<exists>signals info. ecg_process short_delineate [Num 1, Num 2, Num 3] 1000 ''neurokit'' = Inr (signals, info) \<and>
      nrows signals = 3 \<and> (\<forall>col \<in> set (cols signals). length (snd col) = 3) \<and>
      (''ECG_P_Peaks'', [Num 0, Num 0, NaN]) \<in> set (cols signals))"
proof
  let ?raw = "[Num 1, Num 2, Num 3]"
  let ?rp = "[(''ECG_R_Peaks'', Indices []), (''sampling_rate'', IntVal 1000)]"
  have "signal_sanitize short_quality ?raw = Inr ?raw"
    and "ecg_clean short_quality ?raw 1000 ''neurokit'' = Inr ?raw"
    and "ecg_peaks short_quality ?raw 1000 ''neurokit'' True =
           Inr (\<lparr>nrows = 3, cols = [(''ECG_R_Peaks'', zeros ?raw)]\<rparr>, ?rp)"
    and "signal_rate short_quality ?rp 1000 (length ?raw) = Inr [Num 60, Num 60, Num 60]"
    and "dict_getitem ?rp ''ECG_R_Peaks'' = Inr (Indices [])"
    and "ecg_quality short_quality ?raw (Indices []) 1000 = Inr [Num 0, Num 0]"
    by (simp_all add: short_quality_def demo_def dict_getitem_def zeros_def numeral_3_eq_3)
  from ecg_process_length_mismatch [OF this, THEN conjunct1]
  show "ecg_process short_quality ?raw 1000 ''neurokit'' =
     Inl (ValueError ''All arrays must be of the same length'')"
    by simp
next
  let ?raw = "[Num 1, Num 2, Num 3]"
  let ?rp = "[(''ECG_R_Peaks'', Indices []), (''sampling_rate'', IntVal 1000)]"
  let ?ip = "\<lparr>nrows = 3, cols = [(''ECG_R_Peaks'', [Num 0, Num 0, Num 0])]\<rparr>"
  let ?ds = "\<lparr>nrows = 2, cols = [(''ECG_P_Peaks'', [Num 0, Num 0])]\<rparr>"
  let ?cp = "\<lparr>nrows = 3, cols = [(''ECG_Phase_Atrial'', [Num 0, Num 0, Num 0])]\<rparr>"
  have "signal_sanitize short_delineate ?raw = Inr ?raw"
    and "ecg_clean short_delineate ?raw 1000 ''neurokit'' = Inr ?raw"
    and "ecg_peaks short_delineate ?raw 1000 ''neurokit'' True = Inr (?ip, ?rp)"
    and "signal_rate short_delineate ?rp 1000 (length ?raw) = Inr [Num 60, Num 60, Num 60]"
    and "dict_getitem ?rp ''ECG_R_Peaks'' = Inr (Indices [])"
    and "ecg_quality short_delineate ?raw (Indices []) 1000 = Inr [Num 0, Num 0, Num 0]"
    by (simp_all add: short_delineate_def demo_def dict_getitem_def zeros_def numeral_3_eq_3)
  from ecg_process_length_mismatch [where ds = ?ds
      and di = "[(''ECG_P_Peaks'', Indices [])]" and cp = ?cp, OF this, THEN conjunct2]
  show "\<exists>signals info. ecg_process short_delineate ?raw 1000 ''neurokit'' = Inr (signals, info) \<and>
      nrows signals = 3 \<and> (\<forall>col \<in> set (cols signals). length (snd col) = 3) \<and>
      (''ECG_P_Peaks'', [Num 0, Num 0, NaN]) \<in> set (cols signals)"
    by (force simp add: short_delineate_def demo_def zeros_def wf_frame_def)
qed

section \<open>Columns of the same name\<close>

text \<open>
  Claim C4, as stated, fails. When the delineator and the phase assigner both emit a
  column \<open>ECG_P_Peaks\<close>, the final table has two columns of that name: the
  delineator's zeros are still there, before the phase assigner's ones.
\<close>

theorem ecg_process_duplicate_columns:
  "ecg_process clash [Num 1, Num 2, Num 3] 1000 ''neurokit'' =
     Inr (\<lparr>nrows = 3,
           cols = [(''ECG_Raw'', [Num 1, Num 2, Num 3]), (''ECG_Clean'', [Num 1, Num 2, Num 3]),
                   (''ECG_Rate'', [Num 60, Num 60, Num 60]), (''ECG_Quality'', [Num 0, Num 0, Num 0]),
                   (''ECG_R_Peaks'', [Num 0, Num 0, Num 0]), (''ECG_P_Peaks'', [Num 0, Num 0, Num 0]),
                   (''ECG_P_Peaks'', [Num 1, Num 1, Num 1])]\<rparr>,
          [(''ECG_R_Peaks'', Indices []), (''sampling_rate'', IntVal 1000)])"
  by (simp add: ecg_process_def clash_def demo_def zeros_def ones_def dict_getitem_def DataFrame_def
      concat_axis1_def reindex_def numeral_3_eq_3)

text \<open>
  Claim C4, amended. The column-wise merge overwrites nothing: the final table has one
  column for each column of the primary table and of the peaks, delineation and
  phase tables, in this order and with that stage's values (filled with NaN up to
  the row count), so a name that two stages emit occurs twice.
\<close>

theorem ecg_process_keeps_every_column:
  assumes "signal_sanitize C raw = Inr s"
    and "ecg_clean C s sr m = Inr c"
    and "ecg_peaks C c sr m True = Inr (ip, rp)"
    and "signal_rate C rp sr (length c) = Inr r"
    and "dict_getitem rp ''ECG_R_Peaks'' = Inr pk"
    and "ecg_quality C c pk sr = Inr q"
    and "ecg_delineate C c rp sr = Inr (ds, di)"
    and "ecg_phase C c rp di = Inr cp"
    and "ecg_process C raw sr m = Inr (signals, info)"
  shows "cols signals =
           merged_cols (nrows signals)
             ([(''ECG_Raw'', s), (''ECG_Clean'', c), (''ECG_Rate'', r), (''ECG_Quality'', q)]
               @ cols ip @ cols ds @ cols cp) \<and>
         map fst (cols signals) =
           [''ECG_Raw'', ''ECG_Clean'', ''ECG_Rate'', ''ECG_Quality'']
             @ map fst (cols ip) @ map fst (cols ds) @ map fst (cols cp)"
proof -
  have l: "length c = length s \<and> length r = length s \<and> length q = length s"
  proof (rule ccontr)
    assume "\<not> ?thesis"
    then have "length c \<noteq> length s \<or> length r \<noteq> length s \<or> length q \<noteq> length s"
      by simp
    from ecg_process_primary_mismatch [OF assms(1-6) this] assms(9) show False
      by simp
  qed
  then have "length c = length s" "length r = length s" "length q = length s"
    by simp_all
  from ecg_process_returns [OF assms(1-6) this assms(7,8)] assms(9)
  have "signals = \<lparr>nrows = max (length s) (max (nrows ip) (max (nrows ds) (nrows cp))),
           cols = merged_cols (max (length s) (max (nrows ip) (max (nrows ds) (nrows cp))))
                    ([(''ECG_Raw'', s), (''ECG_Clean'', c), (''ECG_Rate'', r), (''ECG_Quality'', q)]
                      @ cols ip @ cols ds @ cols cp)\<rparr>"
    by simp
  then show ?thesis
    by (simp add: merged_cols_def)
qed

lemma clash_run:
  "ecg_process clash [Num 1, Num 2, Num 3] 1000 ''neurokit'' =
     Inr (\<lparr>nrows = 3,
           cols = [(''ECG_Raw'', [Num 1, Num 2, Num 3]), (''ECG_Clean'', [Num 1, Num 2, Num 3]),
                   (''ECG_Rate'', [Num 60, Num 60, Num 60]), (''ECG_Quality'', [Num 0, Num 0, Num 0]),
                   (''ECG_R_Peaks'', [Num 0, Num 0, Num 0]), (''ECG_P_Peaks'', [Num 0, Num 0, Num 0]),
                   (''ECG_P_Peaks'', [Num 1, Num 1, Num 1])]\<rparr>,
          [(''ECG_R_Peaks'', Indices []), (''sampling_rate'', IntVal 1000)])"
  by (simp add: ecg_process_def clash_def demo_def zeros_def ones_def dict_getitem_def DataFrame_def
      concat_axis1_def reindex_def numeral_3_eq_3)

theorem ecg_process_keeps_every_column_witness:
  "\<exists>signals info. ecg_process clash [Num 1, Num 2, Num 3] 1000 ''neurokit'' = Inr (signals, info) \<and>
     map fst (cols signals) =
       [''ECG_Raw'', ''ECG_Clean'', ''ECG_Rate'', ''ECG_Quality'', ''ECG_R_Peaks'', ''ECG_P_Peaks'', ''ECG_P_Peaks''] \<and>
     (''ECG_P_Peaks'', [Num 0, Num 0, Num 0]) \<in> set (cols signals) \<and>
     (''ECG_P_Peaks'', [Num 1, Num 1, Num 1]) \<in> set (cols signals)"
proof -
  let ?raw = "[Num 1, Num 2, Num 3]"
  let ?rp = "[(''ECG_R_Peaks'', Indices []), (''sampling_rate'', IntVal 1000)]"
  let ?ip = "\<lparr>nrows = 3, cols = [(''ECG_R_Peaks'', [Num 0, Num 0, Num 0])]\<rparr>"
  let ?ds = "\<lparr>nrows = 3, cols = [(''ECG_P_Peaks'', [Num 0, Num 0, Num 0])]\<rparr>"
  let ?di = "[(''ECG_P_Peaks'', Indices [])]"
  let ?cp = "\<lparr>nrows = 3, cols = [(''ECG_P_Peaks'', [Num 1, Num 1, Num 1])]\<rparr>"
  let ?signals = "\<lparr>nrows = 3,
           cols = [(''ECG_Raw'', [Num 1, Num 2, Num 3]), (''ECG_Clean'', [Num 1, Num 2, Num 3]),
                   (''ECG_Rate'', [Num 60, Num 60, Num 60]), (''ECG_Quality'', [Num 0, Num 0, Num 0]),
                   (''ECG_R_Peaks'', [Num 0, Num 0, Num 0]), (''ECG_P_Peaks'', [Num 0, Num 0, Num 0]),
                   (''ECG_P_Peaks'', [Num 1, Num 1, Num 1])]\<rparr>"
  have run: "ecg_process clash ?raw 1000 ''neurokit'' = Inr (?signals, ?rp)"
    by (rule clash_run)
  have "signal_sanitize clash ?raw = Inr ?raw"
    and "ecg_clean clash ?raw 1000 ''neurokit'' = Inr ?raw"
    and "ecg_peaks clash ?raw 1000 ''neurokit'' True = Inr (?ip, ?rp)"
    and "signal_rate clash ?rp 1000 (length ?raw) = Inr [Num 60, Num 60, Num 60]"
    and "dict_getitem ?rp ''ECG_R_Peaks'' = Inr (Indices [])"
    and "ecg_quality clash ?raw (Indices []) 1000 = Inr [Num 0, Num 0, Num 0]"
    and "ecg_delineate clash ?raw ?rp 1000 = Inr (?ds, ?di)"
    and "ecg_phase clash ?raw ?rp ?di = Inr ?cp"
    by (simp_all add: clash_def demo_def dict_getitem_def zeros_def ones_def numeral_3_eq_3)
  from ecg_process_keeps_every_column [OF this run]
  have "map fst (cols ?signals) =
       [''ECG_Raw'', ''ECG_Clean'', ''ECG_Rate'', ''ECG_Quality'', ''ECG_R_Peaks'', ''ECG_P_Peaks'', ''ECG_P_Peaks'']"
    by simp
  with run show ?thesis
    by (intro exI [of _ ?signals] exI [of _ ?rp]) simp
qed

section \<open>The sampling rate is not checked\<close>

text \<open>
  Claim C7, as stated, fails. With a sampling rate of 0 the call does not fail: every
  stage runs and the table is returned. With no sampling rate given, the rate is
  1000 and the call returns as well.
\<close>

theorem ecg_process_runs_at_rate_zero:
  "ecg_process_call demo [Num 1, Num 2, Num 3] (Some 0) None =
     Inr (\<lparr>nrows = 3,
           cols = [(''ECG_Raw'', [Num 1, Num 2, Num 3]), (''ECG_Clean'', [Num 1, Num 2, Num 3]),
                   (''ECG_Rate'', [Num 60, Num 60, Num 60]), (''ECG_Quality'', [Num 0, Num 0, Num 0]),
                   (''ECG_R_Peaks'', [Num 0, Num 0, Num 0]), (''ECG_P_Peaks'', [Num 0, Num 0, Num 0]),
                   (''ECG_Phase_Atrial'', [Num 0, Num 0, Num 0])]\<rparr>,
          [(''ECG_R_Peaks'', Indices []), (''sampling_rate'', IntVal 0)]) \<and>
   ecg_process_call demo [Num 1, Num 2, Num 3] None None =
     Inr (\<lparr>nrows = 3,
           cols = [(''ECG_Raw'', [Num 1, Num 2, Num 3]), (''ECG_Clean'', [Num 1, Num 2, Num 3]),
                   (''ECG_Rate'', [Num 60, Num 60, Num 60]), (''ECG_Quality'', [Num 0, Num 0, Num 0]),
                   (''ECG_R_Peaks'', [Num 0, Num 0, Num 0]), (''ECG_P_Peaks'', [Num 0, Num 0, Num 0]),
                   (''ECG_Phase_Atrial'', [Num 0, Num 0, Num 0])]\<rparr>,
          [(''ECG_R_Peaks'', Indices []), (''sampling_rate'', IntVal 1000)])"
  by (simp add: ecg_process_call_def demo_run)

text \<open>
  Claim C7, amended. \<open>ecg_process\<close> does not look at the sampling rate: it hands it
  to the collaborators as it is, also when it is zero or negative, and a missing
  rate is 1000. Whenever the collaborators return (with primary columns of one
  length), the call returns the merged table and an info record that holds the
  rate it was given.
\<close>

theorem ecg_process_no_rate_check:
  assumes "signal_sanitize C raw = Inr s"
    and "ecg_clean C s sr m = Inr c"
    and "ecg_peaks C c sr m True = Inr (ip, rp)"
    and "signal_rate C rp sr (length c) = Inr r"
    and "dict_getitem rp ''ECG_R_Peaks'' = Inr pk"
    and "ecg_quality C c pk sr = Inr q"
    and "length c = length s" "length r = length s" "length q = length s"
    and "ecg_delineate C c rp sr = Inr (ds, di)"
    and "ecg_phase C c rp di = Inr cp"
  shows "(\<exists>signals. ecg_process C raw sr m = Inr (signals, dict_set rp ''sampling_rate'' (IntVal sr))) \<and>
         ecg_process_call C raw (Some sr) (Some m) = ecg_process C raw sr m \<and>
         ecg_process_call C raw None (Some m) = ecg_process C raw 1000 m"
proof (intro conjI)
  show "\<exists>signals. ecg_process C raw sr m = Inr (signals, dict_set rp ''sampling_rate'' (IntVal sr))"
    unfolding ecg_process_returns [OF assms] by simp
  show "ecg_process_call C raw (Some sr) (Some m) = ecg_process C raw sr m"
    by (simp add: ecg_process_call_def)
  show "ecg_process_call C raw None (Some m) = ecg_process C raw 1000 m"
    by (simp add: ecg_process_call_def)
qed

theorem ecg_process_no_rate_check_witness:
  "\<exists>signals. ecg_process demo [Num 1, Num 2, Num 3] (- 1) ''neurokit'' =
      Inr (signals, [(''ECG_R_Peaks'', Indices []), (''sampling_rate'', IntVal (- 1))])"
proof -
  let ?raw = "[Num 1, Num 2, Num 3]"
  let ?rp = "[(''ECG_R_Peaks'', Indices []), (''sampling_rate'', IntVal (- 1))]"
  let ?ip = "\<lparr>nrows = 3, cols = [(''ECG_R_Peaks'', [Num 0, Num 0, Num 0])]\<rparr>"
  let ?ds = "\<lparr>nrows = 3, cols = [(''ECG_P_Peaks'', [Num 0, Num 0, Num 0])]\<rparr>"
  let ?di = "[(''ECG_P_Peaks'', Indices [])]"
  let ?cp = "\<lparr>nrows = 3, cols = [(''ECG_Phase_Atrial'', [Num 0, Num 0, Num 0])]\<rparr>"
  have "signal_sanitize demo ?raw = Inr ?raw"
    and "ecg_clean demo ?raw (- 1) ''neurokit'' = Inr ?raw"
    and "ecg_peaks demo ?raw (- 1) ''neurokit'' True = Inr (?ip, ?rp)"
    and "signal_rate demo ?rp (- 1) (length ?raw) = Inr [Num 60, Num 60, Num 60]"
    and "dict_getitem ?rp ''ECG_R_Peaks'' = Inr (Indices [])"
    and "ecg_quality demo ?raw (Indices []) (- 1) = Inr [Num 0, Num 0, Num 0]"
    and "length ?raw = length ?raw"
    and "length [Num 60, Num 60, Num 60] = length ?raw"
    and "length [Num 0, Num 0, Num 0 :: cell] = length ?raw"
    and "ecg_delineate demo ?raw ?rp (- 1) = Inr (?ds, ?di)"
    and "ecg_phase demo ?raw ?rp ?di = Inr ?cp"
    by (simp_all add: demo_def dict_getitem_def zeros_def numeral_3_eq_3)
  from ecg_process_no_rate_check [OF this, THEN conjunct1]
  show ?thesis by simp
qed

section \<open>Facts about strings, dictionaries and arrays\<close>

lemma str_in_sublist: "str_in pat s \<longleftrightarrow> sublist pat s"
  by (induction s) (auto simp: sublist_Cons_right)

lemma str_in_refl: "str_in s s"
  by (cases s) simp_all

lemma rate_msg_names_pattern: "str_in ''PPG_Rate'' rate_msg"
  by (simp add: rate_msg_def)

lemma peaks_msg_names_pattern: "str_in ''PPG_Peaks'' peaks_msg"
  by (simp add: peaks_msg_def)

lemma getitem_KeyError: "name \<notin> set (map fst (cols df)) \<Longrightarrow> getitem df name = Inl (KeyError name)"
proof -
  assume "name \<notin> set (map fst (cols df))"
  then have "filter (\<lambda>c. fst c = name) (cols df) = []"
    by (auto simp: filter_empty_conv)
  then show ?thesis by (simp add: getitem_def)
qed

lemma formatinput_KeyError:
  assumes "length (filter (str_in ''PPG_Rate'') (map fst (cols df))) \<noteq> 0"
    and "''PPG_Rate'' \<notin> set (map fst (cols df))"
  shows "ppg_intervalrelated_formatinput df out = Inl (KeyError ''PPG_Rate'')"
  using assms by (simp add: ppg_intervalrelated_formatinput_def getitem_KeyError)

lemma hrv_KeyError:
  assumes "length (filter (str_in ''PPG_Peaks'') (map fst (cols df))) \<noteq> 0"
    and "''PPG_Peaks'' \<notin> set (map fst (cols df))"
  shows "ppg_intervalrelated_hrv hrv df sr out = (Some (KeyError ''PPG_Peaks''), out)"
  using assms by (simp add: ppg_intervalrelated_hrv_def peaks_of_def getitem_KeyError)

lemma np_sum_Num: "np_sum (map Num xs) = Inr (Num (sum_list xs))"
  by (induction xs) simp_all

lemma np_mean_Num: "xs \<noteq> [] \<Longrightarrow> np_mean (map Num xs) = Inr (Num (sum_list xs / real (length xs)))"
  by (simp add: np_mean_def np_sum_Num)

lemma map_of_dict_set_eq: "map_of (dict_set d k v) k' = (if k' = k then Some v else map_of d k')"
  by (induction d) auto

lemma keys_dict_set: "set (map fst (dict_set d k v)) = insert k (set (map fst d))"
proof (induction d)
  case Nil
  show ?case by simp
next
  case (Cons a d)
  obtain k' v' where a: "a = (k', v')" by (cases a)
  show ?case
  proof (cases "k' = k")
    case True
    then show ?thesis by (simp add: a)
  next
    case False
    with Cons.IH show ?thesis by (simp add: a insert_commute)
  qed
qed

lemma distinct_dict_set: "distinct (map fst d) \<Longrightarrow> distinct (map fst (dict_set d k v))"
proof (induction d)
  case Nil
  then show ?case by simp
next
  case (Cons a d)
  from Cons.prems have "fst a \<notin> set (map fst d)" and "distinct (map fst d)"
    by simp_all
  with Cons.IH keys_dict_set [of d k v] show ?case
    by (cases a) auto
qed

lemma map_of_dict_update_other:
  "k \<notin> fst ` set e \<Longrightarrow> map_of (dict_update d e) k = map_of d k"
  unfolding dict_update_def by (induction e arbitrary: d) (auto simp: map_of_dict_set_eq)

lemma map_of_dict_update_in:
  "distinct (map fst e) \<Longrightarrow> (k, v) \<in> set e \<Longrightarrow> map_of (dict_update d e) k = Some v"
proof (induction e arbitrary: d)
  case Nil
  then show ?case by simp
next
  case (Cons a e)
  show ?case
  proof (cases "fst a = k")
    case True
    with Cons.prems have "k \<notin> fst ` set e" and "snd a = v"
      by (cases a; force)+
    with True map_of_dict_update_other [of k e "dict_set d (fst a) (snd a)"]
    show ?thesis
      by (simp add: dict_update_def map_of_dict_set_eq)
  next
    case False
    with Cons.prems have "distinct (map fst e)" and "(k, v) \<in> set e"
      by auto
    from Cons.IH [OF this, of "dict_set d (fst a) (snd a)"]
    show ?thesis by (simp add: dict_update_def)
  qed
qed

lemma formatinput_mean:
  assumes "getitem df ''PPG_Rate'' = Inr (Series (map Num xs))" and "xs \<noteq> []"
  shows "ppg_intervalrelated_formatinput df out =
           Inr (dict_set out ''PPG_Rate_Mean'' (Scalar (Num (sum_list xs / real (length xs)))))"
proof -
  from assms(1) have "filter (\<lambda>c. fst c = ''PPG_Rate'') (cols df) \<noteq> []"
    by (auto simp: getitem_def split: list.splits)
  then obtain c where "c \<in> set (cols df)" "fst c = ''PPG_Rate''"
    by (auto simp: filter_empty_conv)
  then have "''PPG_Rate'' \<in> set (map fst (cols df))"
    by force
  then have "''PPG_Rate'' \<in> set (filter (str_in ''PPG_Rate'') (map fst (cols df)))"
    using str_in_refl [of "''PPG_Rate''"] by (simp del: str_in.simps)
  then have "0 < length (filter (str_in ''PPG_Rate'') (map fst (cols df)))"
    by (rule length_pos_if_in_set)
  then have "length (filter (str_in ''PPG_Rate'') (map fst (cols df))) \<noteq> 0"
    by (rule gr_implies_not0)
  with assms show ?thesis
    by (simp add: ppg_intervalrelated_formatinput_def np_mean_Num)
qed

lemma rates_68_run:
  "ppg_intervalrelated hrv_demo (Table rates_68) 1000 initial =
     (Inr (SummaryRow [(''PPG_Rate_Mean'', Scalar (Num 68)), (''HRV_N'', Array [Num 2]),
                       (''HRV_SDNN'', Array [Num 0])]),
      \<lparr>formatinput_output = [(''PPG_Rate_Mean'', Scalar (Num 68))],
       hrv_output = [(''HRV_N'', Array [Num 2]), (''HRV_SDNN'', Array [Num 0])]\<rparr>)"
  by (simp add: ppg_intervalrelated_def rates_68_def initial_def ppg_intervalrelated_formatinput_def
      ppg_intervalrelated_hrv_def peaks_of_def getitem_def np_mean_def hrv_demo_def astype_float_def
      dict_update_def upt_rec nth_Cons')

lemma filter_upt_nth: "map (nth xs) (filter (\<lambda>i. P (xs ! i)) [0..<length xs]) = filter P xs"
proof -
  have "filter P (map (nth xs) [0..<length xs]) = map (nth xs) (filter (P \<circ> nth xs) [0..<length xs])"
    by (rule filter_map)
  then show ?thesis by (simp add: map_nth comp_def)
qed

lemma length_filter_upt_nth:
  "length (filter (\<lambda>i. P (xs ! i)) [0..<length xs]) = length (filter P xs)"
  using arg_cong [OF filter_upt_nth [of xs P], of length] by simp

lemma np_where_0_Series:
  "sorted_wrt (<) (np_where_0 (Series msk)) \<and> distinct (np_where_0 (Series msk)) \<and>
   set (np_where_0 (Series msk)) = {i. i < length msk \<and> truthy (msk ! i)} \<and>
   length (np_where_0 (Series msk)) = length (filter truthy msk)"
proof -
  have "sorted_wrt (<) (filter (\<lambda>i. truthy (msk ! i)) [0..<length msk])"
    by (rule sorted_wrt_filter) (rule sorted_wrt_upt)
  then show ?thesis
    by (auto simp: length_filter_upt_nth)
qed

lemma getitem_Series_has_column:
  assumes "getitem df name = Inr sel"
  shows "name \<in> set (map fst (cols df))"
proof (rule ccontr)
  assume "name \<notin> set (map fst (cols df))"
  then have "getitem df name = Inl (KeyError name)" by (rule getitem_KeyError)
  with assms show False by simp
qed

lemma has_pattern_column:
  assumes "name \<in> set (map fst (cols df))"
  shows "length (filter (str_in name) (map fst (cols df))) \<noteq> 0"
proof -
  from assms str_in_refl [of name] have "name \<in> set (filter (str_in name) (map fst (cols df)))"
    by (simp del: str_in.simps)
  then have "0 < length (filter (str_in name) (map fst (cols df)))"
    by (rule length_pos_if_in_set)
  then show ?thesis by (rule gr_implies_not0)
qed

section \<open>Schema check of the aggregator in single-table mode\<close>

text \<open>
  Claim C5. In single-table mode, when the number of columns whose name contains
  \<open>PPG_Rate\<close> is not exactly one (none, or more than one), \<open>ppg_intervalrelated\<close>
  raises its \<open>ValueError\<close>, whose message names the \<open>PPG_Rate\<close> pattern, and produces no
  summary row; the default dictionaries stay as they were.
\<close>

theorem ppg_single_table_schema_error:
  assumes "length (filter (str_in ''PPG_Rate'') (map fst (cols df))) \<noteq> 1"
  shows "ppg_intervalrelated hrv (Table df) sr st = (Inl (ValueError rate_msg), st) \<and>
         str_in ''PPG_Rate'' rate_msg"
  using assms by (simp add: ppg_intervalrelated_def rate_msg_names_pattern)

theorem ppg_single_table_schema_error_witness:
  "length (filter (str_in ''PPG_Rate'') (map fst (cols no_rate))) = 0 \<and>
   ppg_intervalrelated hrv_demo (Table no_rate) 1000 initial = (Inl (ValueError rate_msg), initial) \<and>
   length (filter (str_in ''PPG_Rate'') (map fst (cols two_rates))) = 2 \<and>
   ppg_intervalrelated hrv_demo (Table two_rates) 1000 initial = (Inl (ValueError rate_msg), initial)"
proof -
  have 0: "length (filter (str_in ''PPG_Rate'') (map fst (cols no_rate))) = 0"
    by (simp add: no_rate_def)
  have 2: "length (filter (str_in ''PPG_Rate'') (map fst (cols two_rates))) = 2"
    by (simp add: two_rates_def)
  from 0 have a: "length (filter (str_in ''PPG_Rate'') (map fst (cols no_rate))) \<noteq> 1" by simp
  from 2 have b: "length (filter (str_in ''PPG_Rate'') (map fst (cols two_rates))) \<noteq> 1" by simp
  from ppg_single_table_schema_error [OF a, of hrv_demo 1000 initial]
    ppg_single_table_schema_error [OF b, of hrv_demo 1000 initial] 0 2
  show ?thesis by simp
qed

text \<open>
  Claim C10. The schema checks look for the pattern inside the column names, the
  lookups use the exact names. A table whose only rate column has a longer name such
  as \<open>PPG_Rate_Smoothed\<close> passes the check and then fails with \<open>KeyError\<close> for
  \<open>PPG_Rate\<close>; a table whose peaks column has a longer name such as
  \<open>PPG_Peaks_Corrected\<close> passes the peaks check and fails with \<open>KeyError\<close> for
  \<open>PPG_Peaks\<close>.
\<close>

theorem ppg_substring_check_exact_lookup:
  "(length (filter (str_in ''PPG_Rate'') (map fst (cols df))) = 1 \<and>
    ''PPG_Rate'' \<notin> set (map fst (cols df)) \<longrightarrow>
      ppg_intervalrelated hrv (Table df) sr st = (Inl (KeyError ''PPG_Rate''), st)) \<and>
   (length (filter (str_in ''PPG_Rate'') (map fst (cols df))) = 1 \<and>
    ppg_intervalrelated_formatinput df (formatinput_output st) = Inr out \<and>
    length (filter (str_in ''PPG_Peaks'') (map fst (cols df))) \<noteq> 0 \<and>
    ''PPG_Peaks'' \<notin> set (map fst (cols df)) \<longrightarrow>
      fst (ppg_intervalrelated hrv (Table df) sr st) = Inl (KeyError ''PPG_Peaks''))"
proof (intro conjI impI)
  assume a: "length (filter (str_in ''PPG_Rate'') (map fst (cols df))) = 1 \<and>
    ''PPG_Rate'' \<notin> set (map fst (cols df))"
  then have "ppg_intervalrelated_formatinput df (formatinput_output st) = Inl (KeyError ''PPG_Rate'')"
    by (intro formatinput_KeyError) (simp_all)
  with a show "ppg_intervalrelated hrv (Table df) sr st = (Inl (KeyError ''PPG_Rate''), st)"
    by (simp add: ppg_intervalrelated_def)
next
  assume a: "length (filter (str_in ''PPG_Rate'') (map fst (cols df))) = 1 \<and>
    ppg_intervalrelated_formatinput df (formatinput_output st) = Inr out \<and>
    length (filter (str_in ''PPG_Peaks'') (map fst (cols df))) \<noteq> 0 \<and>
    ''PPG_Peaks'' \<notin> set (map fst (cols df))"
  then have "ppg_intervalrelated_hrv hrv df sr (hrv_output st) = (Some (KeyError ''PPG_Peaks''), hrv_output st)"
    by (intro hrv_KeyError) (simp_all)
  with a show "fst (ppg_intervalrelated hrv (Table df) sr st) = Inl (KeyError ''PPG_Peaks'')"
    by (simp add: ppg_intervalrelated_def)
qed

theorem ppg_substring_check_exact_lookup_witness:
  "ppg_intervalrelated hrv_demo (Table smoothed_rate) 1000 initial = (Inl (KeyError ''PPG_Rate''), initial) \<and>
   fst (ppg_intervalrelated hrv_demo (Table corrected_peaks) 1000 initial) = Inl (KeyError ''PPG_Peaks'')"
proof
  have "length (filter (str_in ''PPG_Rate'') (map fst (cols smoothed_rate))) = 1 \<and>
    ''PPG_Rate'' \<notin> set (map fst (cols smoothed_rate))"
    by (simp add: smoothed_rate_def)
  with ppg_substring_check_exact_lookup [where df = smoothed_rate and hrv = hrv_demo and sr = 1000 and st = initial]
  show "ppg_intervalrelated hrv_demo (Table smoothed_rate) 1000 initial = (Inl (KeyError ''PPG_Rate''), initial)"
    by simp
next
  have "length (filter (str_in ''PPG_Rate'') (map fst (cols corrected_peaks))) = 1 \<and>
    ppg_intervalrelated_formatinput corrected_peaks (formatinput_output initial) =
      Inr [(''PPG_Rate_Mean'', Scalar (Num 60))] \<and>
    length (filter (str_in ''PPG_Peaks'') (map fst (cols corrected_peaks))) \<noteq> 0 \<and>
    ''PPG_Peaks'' \<notin> set (map fst (cols corrected_peaks))"
    by (simp add: corrected_peaks_def ppg_intervalrelated_formatinput_def getitem_def np_mean_def initial_def)
  with ppg_substring_check_exact_lookup [where df = corrected_peaks and hrv = hrv_demo and sr = 1000
      and st = initial and out = "[(''PPG_Rate_Mean'', Scalar (Num 60))]"]
  show "fst (ppg_intervalrelated hrv_demo (Table corrected_peaks) 1000 initial) = Inl (KeyError ''PPG_Peaks'')"
    by simp
qed

section \<open>The mean rate and the peak positions\<close>

text \<open>
  Claim C8. In single-table mode, for a rate column of floats \<open>xs\<close> (at least one),
  the feature \<open>PPG_Rate_Mean\<close> of the summary row is the arithmetic mean of \<open>xs\<close>,
  provided the variability metrics do not use that name themselves. For the column
  60, 60, 60, 80, 80 it is 68.
\<close>

theorem ppg_rate_mean_is_arithmetic_mean:
  assumes "length (filter (str_in ''PPG_Rate'') (map fst (cols df))) = 1"
    and "getitem df ''PPG_Rate'' = Inr (Series (map Num xs))" and "xs \<noteq> []"
    and "ppg_intervalrelated hrv (Table df) sr st = (Inr (SummaryRow row), st')"
    and "distinct (map fst (formatinput_output st))"
    and "''PPG_Rate_Mean'' \<notin> set (map fst (hrv_output st'))"
  shows "map_of row ''PPG_Rate_Mean'' = Some (Scalar (Num (sum_list xs / real (length xs))))"
proof -
  let ?mean = "Scalar (Num (sum_list xs / real (length xs)))"
  let ?out1 = "dict_set (formatinput_output st) ''PPG_Rate_Mean'' ?mean"
  have f: "ppg_intervalrelated_formatinput df (formatinput_output st) = Inr ?out1"
    by (rule formatinput_mean [OF assms(2,3)])
  with assms(1,4) have row: "row = dict_update (dict_update [] ?out1) (hrv_output st')"
    by (auto simp: ppg_intervalrelated_def split: prod.splits option.splits)
  have "distinct (map fst ?out1)"
    by (rule distinct_dict_set [OF assms(5)])
  moreover have "(''PPG_Rate_Mean'', ?mean) \<in> set ?out1"
    by (rule map_of_SomeD) (simp add: map_of_dict_set_eq)
  ultimately have "map_of (dict_update [] ?out1) ''PPG_Rate_Mean'' = Some ?mean"
    by (rule map_of_dict_update_in)
  with assms(6) show ?thesis
    unfolding row by (simp add: map_of_dict_update_other)
qed

theorem ppg_rate_mean_is_arithmetic_mean_witness:
  "\<exists>row st'. ppg_intervalrelated hrv_demo (Table rates_68) 1000 initial = (Inr (SummaryRow row), st') \<and>
     getitem rates_68 ''PPG_Rate'' = Inr (Series (map Num [60, 60, 60, 80, 80])) \<and>
     map_of row ''PPG_Rate_Mean'' = Some (Scalar (Num 68))"
proof -
  let ?row = "[(''PPG_Rate_Mean'', Scalar (Num 68)), (''HRV_N'', Array [Num 2]),
                       (''HRV_SDNN'', Array [Num 0])]"
  let ?st = "\<lparr>formatinput_output = [(''PPG_Rate_Mean'', Scalar (Num 68))],
       hrv_output = [(''HRV_N'', Array [Num 2]), (''HRV_SDNN'', Array [Num 0])]\<rparr>"
  have 1: "length (filter (str_in ''PPG_Rate'') (map fst (cols rates_68))) = 1"
    by (simp add: rates_68_def)
  have 2: "getitem rates_68 ''PPG_Rate'' = Inr (Series (map Num [60, 60, 60, 80, 80]))"
    by (simp add: rates_68_def getitem_def)
  have 3: "[60, 60, 60, 80, 80 :: real] \<noteq> []" by simp
  have 4: "ppg_intervalrelated hrv_demo (Table rates_68) 1000 initial = (Inr (SummaryRow ?row), ?st)"
    by (rule rates_68_run)
  have 5: "distinct (map fst (formatinput_output initial))"
    by (simp add: initial_def)
  have 6: "''PPG_Rate_Mean'' \<notin> set (map fst (hrv_output ?st))"
    by simp
  from ppg_rate_mean_is_arithmetic_mean [OF 1 2 3 4 5 6]
  have "map_of ?row ''PPG_Rate_Mean'' = Some (Scalar (Num 68))"
    by simp
  with 4 2 show ?thesis by blast
qed

text \<open>
  Claim C9. For a binary mask column \<open>PPG_Peaks\<close>, the index sequence handed to the
  variability engine is strictly increasing, has no duplicates, consists of exactly
  the positions where the mask is 1, and has as many elements as the mask has ones.
\<close>

theorem ppg_mask_to_peaks:
  assumes "getitem df ''PPG_Peaks'' = Inr (Series msk)"
    and "\<forall>x \<in> set msk. x = Num 0 \<or> x = Num 1"
  shows "\<exists>peaks. peaks_of df = Inr peaks \<and>
           sorted_wrt (<) peaks \<and> distinct peaks \<and>
           set peaks = {i. i < length msk \<and> msk ! i = Num 1} \<and>
           length peaks = count_list msk (Num 1) \<and>
           ppg_intervalrelated_hrv hrv df sr out =
             (case hrv [(''PPG_Peaks'', peaks)] sr of
                Inl e \<Rightarrow> (Some e, out)
              | Inr results \<Rightarrow> store_columns results (map fst (cols results)) out)"
proof -
  let ?peaks = "np_where_0 (Series msk)"
  have t: "truthy x \<longleftrightarrow> x = Num 1" if "x \<in> set msk" for x
    using assms(2) that by auto
  have p: "peaks_of df = Inr ?peaks"
    using assms(1) by (simp add: peaks_of_def)
  have s: "set ?peaks = {i. i < length msk \<and> msk ! i = Num 1}"
    using t by (auto simp: np_where_0_Series)
  have "filter truthy msk = filter ((=) (Num 1)) msk"
    using t by (intro filter_cong) auto
  then have l: "length ?peaks = count_list msk (Num 1)"
    using np_where_0_Series [of msk]
    by (simp add: count_list_eq_length_filter)
  from getitem_Series_has_column [OF assms(1)]
  have "length (filter (str_in ''PPG_Peaks'') (map fst (cols df))) \<noteq> 0"
    by (rule has_pattern_column)
  with p have h: "ppg_intervalrelated_hrv hrv df sr out =
             (case hrv [(''PPG_Peaks'', ?peaks)] sr of
                Inl e \<Rightarrow> (Some e, out)
              | Inr results \<Rightarrow> store_columns results (map fst (cols results)) out)"
    by (simp add: ppg_intervalrelated_hrv_def)
  show ?thesis
  proof (intro exI conjI)
    show "peaks_of df = Inr ?peaks" by (rule p)
    show "sorted_wrt (<) ?peaks" using np_where_0_Series [of msk] by blast
    show "distinct ?peaks" using np_where_0_Series [of msk] by blast
    show "set ?peaks = {i. i < length msk \<and> msk ! i = Num 1}" by (rule s)
    show "length ?peaks = count_list msk (Num 1)" by (rule l)
    show "ppg_intervalrelated_hrv hrv df sr out =
             (case hrv [(''PPG_Peaks'', ?peaks)] sr of
                Inl e \<Rightarrow> (Some e, out)
              | Inr results \<Rightarrow> store_columns results (map fst (cols results)) out)" by (rule h)
  qed
qed

theorem ppg_mask_to_peaks_witness:
  "getitem rates_68 ''PPG_Peaks'' = Inr (Series [Num 0, Num 1, Num 0, Num 0, Num 1]) \<and>
   peaks_of rates_68 = Inr [1, 4] \<and>
   count_list [Num 0, Num 1, Num 0, Num 0, Num 1] (Num 1) = 2"
proof -
  let ?msk = "[Num 0, Num 1, Num 0, Num 0, Num 1]"
  have g: "getitem rates_68 ''PPG_Peaks'' = Inr (Series ?msk)"
    by (simp add: rates_68_def getitem_def)
  have b: "\<forall>x \<in> set ?msk. x = Num 0 \<or> x = Num 1"
    by simp
  from ppg_mask_to_peaks [OF g b, of hrv_demo 1000 "[]"]
  obtain peaks where "peaks_of rates_68 = Inr peaks" and "length peaks = count_list ?msk (Num 1)"
    by blast
  moreover have "peaks_of rates_68 = Inr [1, 4]"
    by (simp add: peaks_of_def rates_68_def getitem_def upt_rec nth_Cons')
  ultimately show ?thesis using g by simp
qed

section \<open>Collection mode\<close>

lemma hrv_missing_peaks:
  "length (filter (str_in ''PPG_Peaks'') (map fst (cols df))) = 0 \<Longrightarrow>
     ppg_intervalrelated_hrv hrv df sr out = (Some (ValueError peaks_msg), out)"
  by (simp add: ppg_intervalrelated_hrv_def)

lemma formatinput_missing_rate:
  "length (filter (str_in ''PPG_Rate'') (map fst (cols df))) = 0 \<Longrightarrow>
     ppg_intervalrelated_formatinput df out = Inl (ValueError rate_msg)"
  by (simp add: ppg_intervalrelated_formatinput_def)

lemma epoch_row_missing_rate:
  assumes "and_then (getitem df ''Label'') iloc_0 = Inr lab"
    and "length (filter (str_in ''PPG_Rate'') (map fst (cols df))) = 0"
  shows "epoch_row hrv sr df = Inl (ValueError rate_msg)"
  using assms by (simp add: epoch_row_def formatinput_missing_rate)

lemma epoch_row_missing_peaks:
  assumes "and_then (getitem df ''Label'') iloc_0 = Inr lab"
    and "ppg_intervalrelated_formatinput df [(''Label'', lab)] = Inr out"
    and "length (filter (str_in ''PPG_Peaks'') (map fst (cols df))) = 0"
  shows "epoch_row hrv sr df = Inl (ValueError peaks_msg)"
  using assms by (simp add: epoch_row_def hrv_missing_peaks)

lemma epoch_row_missing:
  assumes "length (filter (str_in ''PPG_Rate'') (map fst (cols df))) = 0 \<or>
           length (filter (str_in ''PPG_Peaks'') (map fst (cols df))) = 0"
  shows "\<exists>e. epoch_row hrv sr df = Inl e"
proof (cases "and_then (getitem df ''Label'') iloc_0")
  case (Inl e)
  then show ?thesis by (simp add: epoch_row_def)
next
  case (Inr lab)
  show ?thesis
  proof (cases "ppg_intervalrelated_formatinput df [(''Label'', lab)]")
    case (Inl e)
    with Inr show ?thesis by (simp add: epoch_row_def)
  next
    case out: (Inr out)
    with assms have "length (filter (str_in ''PPG_Peaks'') (map fst (cols df))) = 0"
      using formatinput_missing_rate [of df "[(''Label'', lab)]"] by auto
    from epoch_row_missing_peaks [OF Inr out this] show ?thesis by blast
  qed
qed

lemma epochs_loop_abort:
  "p \<in> set d \<Longrightarrow> epoch_row hrv sr (snd p) = Inl e \<Longrightarrow> \<exists>e'. epochs_loop hrv sr d acc = Inl e'"
proof (induction d arbitrary: acc)
  case Nil
  then show ?case by simp
next
  case (Cons a d)
  obtain index df where a: "a = (index, df)" by (cases a)
  show ?case
  proof (cases "epoch_row hrv sr df")
    case (Inl e1)
    then show ?thesis by (simp add: a)
  next
    case (Inr row)
    with Cons.prems a have "p \<in> set d" by auto
    from Cons.IH [OF this Cons.prems(2)] Inr show ?thesis by (simp add: a)
  qed
qed

lemma epochs_loop_first:
  "\<forall>p \<in> set pre. \<exists>row. epoch_row hrv sr (snd p) = Inr row \<Longrightarrow> epoch_row hrv sr df = Inl e \<Longrightarrow>
     epochs_loop hrv sr (pre @ (index, df) # post) acc = Inl e"
proof (induction pre arbitrary: acc)
  case Nil
  then show ?case by simp
next
  case (Cons a pre)
  obtain i t where a: "a = (i, t)" by (cases a)
  from Cons.prems(1) a obtain row where "epoch_row hrv sr t = Inr row" by auto
  moreover from Cons.prems(1) have "\<forall>p \<in> set pre. \<exists>row. epoch_row hrv sr (snd p) = Inr row" by simp
  ultimately show ?case
    using Cons.IH [OF _ Cons.prems(2)] by (simp add: a)
qed

lemma ppg_collection_result:
  "ppg_intervalrelated hrv (Epochs d) sr st =
     (case epochs_loop hrv sr d [] of Inl e \<Rightarrow> (Inl e, st) | Inr intervals \<Rightarrow> (Inr (SummaryTable intervals), st))"
  by (simp add: ppg_intervalrelated_def)

lemma epoch_ok_row:
  "epoch_row hrv_demo 1000 epoch_ok =
     Inr [(''Label'', Scalar (Str ''1'')), (''PPG_Rate_Mean'', Scalar (Num 60)), (''HRV_N'', Array [Num 1])]"
  by (simp add: epoch_row_def epoch_ok_def getitem_def ppg_intervalrelated_formatinput_def np_mean_def
      ppg_intervalrelated_hrv_def peaks_of_def hrv_demo_def astype_float_def upt_rec nth_Cons')

lemma epoch_no_peaks_facts:
  "and_then (getitem epoch_no_peaks ''Label'') iloc_0 = Inr (Scalar (Str ''2''))"
  "ppg_intervalrelated_formatinput epoch_no_peaks [(''Label'', Scalar (Str ''2''))] =
     Inr [(''Label'', Scalar (Str ''2'')), (''PPG_Rate_Mean'', Scalar (Num 70))]"
  "length (filter (str_in ''PPG_Peaks'') (map fst (cols epoch_no_peaks))) = 0"
  by (simp_all add: epoch_no_peaks_def getitem_def ppg_intervalrelated_formatinput_def np_mean_def)

text \<open>
  Claim C6, as stated, fails. With label \<open>A\<close> lacking the peaks column, the batch is
  aborted with the \<open>ValueError\<close> that names the \<open>PPG_Peaks\<close> pattern, but the error
  does not identify the label: the message does not contain it, and it is the same
  error when the label is \<open>Z9\<close> instead.
\<close>

theorem ppg_collection_error_omits_label:
  "ppg_intervalrelated hrv_demo (Epochs [(''A'', epoch_no_peaks), (''B'', epoch_ok)]) 1000 initial =
     (Inl (ValueError peaks_msg), initial) \<and>
   \<not> str_in ''A'' peaks_msg \<and>
   ppg_intervalrelated hrv_demo (Epochs [(''Z9'', epoch_no_peaks), (''B'', epoch_ok)]) 1000 initial =
     (Inl (ValueError peaks_msg), initial)"
  by (simp add: ppg_collection_result epoch_row_missing_peaks [OF epoch_no_peaks_facts] peaks_msg_def)

text \<open>
  Claim C6, amended. In collection mode, when the table of some label has no column
  whose name contains \<open>PPG_Rate\<close>, or none whose name contains \<open>PPG_Peaks\<close>, the
  whole batch is aborted with an error: no row is returned for any label. When the
  labels before it succeed and the label has a \<open>Label\<close> value, the error is the
  \<open>ValueError\<close> that names the missing pattern: \<open>PPG_Rate\<close>, or \<open>PPG_Peaks\<close> once the
  rate step has succeeded. Both messages name their pattern; neither depends on the
  label.
\<close>

theorem ppg_collection_aborts_on_missing_column:
  assumes "d = pre @ (index, df) # post"
    and "length (filter (str_in ''PPG_Rate'') (map fst (cols df))) = 0 \<or>
         length (filter (str_in ''PPG_Peaks'') (map fst (cols df))) = 0"
  shows "(\<exists>e. ppg_intervalrelated hrv (Epochs d) sr st = (Inl e, st)) \<and>
         ((\<forall>p \<in> set pre. \<exists>row. epoch_row hrv sr (snd p) = Inr row) \<and>
          and_then (getitem df ''Label'') iloc_0 = Inr lab \<and>
          length (filter (str_in ''PPG_Rate'') (map fst (cols df))) = 0 \<longrightarrow>
            ppg_intervalrelated hrv (Epochs d) sr st = (Inl (ValueError rate_msg), st)) \<and>
         ((\<forall>p \<in> set pre. \<exists>row. epoch_row hrv sr (snd p) = Inr row) \<and>
          and_then (getitem df ''Label'') iloc_0 = Inr lab \<and>
          ppg_intervalrelated_formatinput df [(''Label'', lab)] = Inr out \<and>
          length (filter (str_in ''PPG_Peaks'') (map fst (cols df))) = 0 \<longrightarrow>
            ppg_intervalrelated hrv (Epochs d) sr st = (Inl (ValueError peaks_msg), st)) \<and>
         str_in ''PPG_Rate'' rate_msg \<and> str_in ''PPG_Peaks'' peaks_msg"
proof (intro conjI impI)
  show "str_in ''PPG_Rate'' rate_msg" by (rule rate_msg_names_pattern)
  show "str_in ''PPG_Peaks'' peaks_msg" by (rule peaks_msg_names_pattern)
next
  from epoch_row_missing [OF assms(2)] obtain e where e: "epoch_row hrv sr df = Inl e"
    by blast
  have "(index, df) \<in> set d" by (simp add: assms(1))
  from epochs_loop_abort [OF this, of hrv sr e "[]"] e
  obtain e' where "epochs_loop hrv sr d [] = Inl e'" by auto
  then show "\<exists>e. ppg_intervalrelated hrv (Epochs d) sr st = (Inl e, st)"
    by (simp add: ppg_collection_result)
next
  assume a: "(\<forall>p \<in> set pre. \<exists>row. epoch_row hrv sr (snd p) = Inr row) \<and>
          and_then (getitem df ''Label'') iloc_0 = Inr lab \<and>
          length (filter (str_in ''PPG_Rate'') (map fst (cols df))) = 0"
  then have "epoch_row hrv sr df = Inl (ValueError rate_msg)"
    by (intro epoch_row_missing_rate [of df lab]) simp_all
  with a have "epochs_loop hrv sr d [] = Inl (ValueError rate_msg)"
    unfolding assms(1) by (intro epochs_loop_first) simp_all
  then show "ppg_intervalrelated hrv (Epochs d) sr st = (Inl (ValueError rate_msg), st)"
    by (simp add: ppg_collection_result)
next
  assume a: "(\<forall>p \<in> set pre. \<exists>row. epoch_row hrv sr (snd p) = Inr row) \<and>
          and_then (getitem df ''Label'') iloc_0 = Inr lab \<and>
          ppg_intervalrelated_formatinput df [(''Label'', lab)] = Inr out \<and>
          length (filter (str_in ''PPG_Peaks'') (map fst (cols df))) = 0"
  then have "epoch_row hrv sr df = Inl (ValueError peaks_msg)"
    by (intro epoch_row_missing_peaks [of df lab out]) simp_all
  with a have "epochs_loop hrv sr d [] = Inl (ValueError peaks_msg)"
    unfolding assms(1) by (intro epochs_loop_first) simp_all
  then show "ppg_intervalrelated hrv (Epochs d) sr st = (Inl (ValueError peaks_msg), st)"
    by (simp add: ppg_collection_result)
qed

theorem ppg_collection_aborts_on_missing_column_witness:
  "epoch_row hrv_demo 1000 epoch_ok =
     Inr [(''Label'', Scalar (Str ''1'')), (''PPG_Rate_Mean'', Scalar (Num 60)), (''HRV_N'', Array [Num 1])] \<and>
   length (filter (str_in ''PPG_Peaks'') (map fst (cols epoch_no_peaks))) = 0 \<and>
   ppg_intervalrelated hrv_demo (Epochs [(''B'', epoch_ok), (''A'', epoch_no_peaks)]) 1000 initial =
     (Inl (ValueError peaks_msg), initial)"
proof -
  have pre: "\<forall>p \<in> set [(''B'', epoch_ok)]. \<exists>row. epoch_row hrv_demo 1000 (snd p) = Inr row"
    by (simp add: epoch_ok_row)
  have d: "[(''B'', epoch_ok), (''A'', epoch_no_peaks)] = [(''B'', epoch_ok)] @ (''A'', epoch_no_peaks) # []"
    by simp
  have m: "length (filter (str_in ''PPG_Rate'') (map fst (cols epoch_no_peaks))) = 0 \<or>
         length (filter (str_in ''PPG_Peaks'') (map fst (cols epoch_no_peaks))) = 0"
    using epoch_no_peaks_facts(3) by (rule disjI2)
  from ppg_collection_aborts_on_missing_column [OF d m, THEN conjunct2, THEN conjunct2, THEN conjunct1, rule_format,
      of hrv_demo 1000 "Scalar (Str ''2'')" _ initial] pre epoch_no_peaks_facts
  have "ppg_intervalrelated hrv_demo (Epochs [(''B'', epoch_ok), (''A'', epoch_no_peaks)]) 1000 initial =
     (Inl (ValueError peaks_msg), initial)"
    by blast
  with epoch_ok_row epoch_no_peaks_facts(3) show ?thesis by blast
qed

section \<open>State shared between calls\<close>

lemma one_peak_run_fresh:
  "ppg_intervalrelated hrv_demo (Table one_peak) 1000 initial =
     (Inr (SummaryRow [(''PPG_Rate_Mean'', Scalar (Num 60)), (''HRV_N'', Array [Num 1])]),
      \<lparr>formatinput_output = [(''PPG_Rate_Mean'', Scalar (Num 60))],
       hrv_output = [(''HRV_N'', Array [Num 1])]\<rparr>)"
  by (simp add: ppg_intervalrelated_def one_peak_def initial_def ppg_intervalrelated_formatinput_def
      ppg_intervalrelated_hrv_def peaks_of_def getitem_def np_mean_def hrv_demo_def astype_float_def
      dict_update_def upt_rec nth_Cons')

lemma one_peak_run_after:
  "ppg_intervalrelated hrv_demo (Table one_peak) 1000
      \<lparr>formatinput_output = [(''PPG_Rate_Mean'', Scalar (Num 68))],
       hrv_output = [(''HRV_N'', Array [Num 2]), (''HRV_SDNN'', Array [Num 0])]\<rparr> =
     (Inr (SummaryRow [(''PPG_Rate_Mean'', Scalar (Num 60)), (''HRV_N'', Array [Num 1]),
                       (''HRV_SDNN'', Array [Num 0])]),
      \<lparr>formatinput_output = [(''PPG_Rate_Mean'', Scalar (Num 60))],
       hrv_output = [(''HRV_N'', Array [Num 1]), (''HRV_SDNN'', Array [Num 0])]\<rparr>)"
  by (simp add: ppg_intervalrelated_def one_peak_def ppg_intervalrelated_formatinput_def
      ppg_intervalrelated_hrv_def peaks_of_def getitem_def np_mean_def hrv_demo_def astype_float_def
      dict_update_def upt_rec nth_Cons')

lemma ppg_collection_pure:
  "snd (ppg_intervalrelated hrv (Epochs d) sr st) = st \<and>
   fst (ppg_intervalrelated hrv (Epochs d) sr st) = fst (ppg_intervalrelated hrv (Epochs d) sr st')"
  by (simp add: ppg_collection_result split: sum.splits)

text \<open>
  Claim C3 does not hold of the code in single-table mode. On a table with one peak, a
  first call returns the mean rate and the metric \<open>HRV_N\<close>. The same call made after
  a call on another table, for which the engine also returned \<open>HRV_SDNN\<close>, returns
  a row that contains \<open>HRV_SDNN\<close> too: the key and its value come from the earlier
  call, through the default dictionary of \<open>_ppg_intervalrelated_hrv\<close>.
\<close>

theorem ppg_single_table_leaks_features:
  "fst (ppg_intervalrelated hrv_demo (Table one_peak) 1000 initial) =
     Inr (SummaryRow [(''PPG_Rate_Mean'', Scalar (Num 60)), (''HRV_N'', Array [Num 1])]) \<and>
   fst (ppg_intervalrelated hrv_demo (Table one_peak) 1000
          (snd (ppg_intervalrelated hrv_demo (Table rates_68) 1000 initial))) =
     Inr (SummaryRow [(''PPG_Rate_Mean'', Scalar (Num 60)), (''HRV_N'', Array [Num 1]),
                      (''HRV_SDNN'', Array [Num 0])])"
  by (simp add: one_peak_run_fresh rates_68_run one_peak_run_after)

end
